theory Spec2Isabelle
  imports Main "HOL-Library.Word"
begin

unbundle bit_operations_syntax

section \<open>Go values\<close>

text \<open>
  The gRPC front end of the storage emulator (\<^verbatim>\<open>fakestorage/grpc_server.go\<close>) translates
  three RPCs into calls on a \<^verbatim>\<open>backend.Storage\<close> and translates the results back.
  Strings are byte strings, as in Go. Byte slices are lists: the server only takes their
  length and hands them on, so a nil slice and an empty one are the same list. The two
  response sequences, where the difference between nil and empty is observable on the
  Go value, are slices proper (see \<open>slice\<close> below).
\<close>

type_synonym byte = "8 word"
type_synonym uint32 = "32 word"

text \<open>
  An \<^verbatim>\<open>error\<close> value. \<open>errUnsupportedWriteOperation\<close> is the package variable of line 18;
  \<open>NumError\<close> is \<^verbatim>\<open>*strconv.NumError\<close> (function, input, cause); \<open>EOF\<close> is \<^verbatim>\<open>io.EOF\<close>;
  \<open>ExternalError\<close> is any error made outside this file (by a backend or by the transport).
\<close>

datatype NumErrorCause = ErrSyntax | ErrRange

datatype error =
    errUnsupportedWriteOperation
  | EOF
  | NumError string string NumErrorCause
  | ExternalError string

text \<open>What a call comes to: a value, a returned error, or a run-time panic.\<close>

datatype 'a result = Ok 'a | Err error | Panic string

text \<open>
  A slice that may be nil: \<open>None\<close> is the nil slice, \<open>Some []\<close> an empty slice that is
  not nil. \<^verbatim>\<open>len\<close> and \<^verbatim>\<open>range\<close> treat both alike; \<^verbatim>\<open>make([]*T, n)\<close> is never nil and
  holds \<open>n\<close> nil pointers.
\<close>

type_synonym 'a slice = "'a list option"

definition len :: "'a slice \<Rightarrow> nat" where
  "len s = (case s of None \<Rightarrow> 0 | Some xs \<Rightarrow> length xs)"

definition elems :: "'a slice \<Rightarrow> 'a list" where
  "elems s = (case s of None \<Rightarrow> [] | Some xs \<Rightarrow> xs)"

definition make_slice :: "nat \<Rightarrow> 'a option list" where
  "make_slice n = replicate n None"

text \<open>
  The loop \<^verbatim>\<open>for i, x := range xs { out[i] = &T{...} }\<close> over a slice of pointers \<open>out\<close>,
  with \<open>f x\<close> the struct built from \<open>x\<close>. The index starts at 0 and grows by one per
  element. (An index beyond \<open>out\<close> would panic in Go; \<open>out\<close> is made with the length of
  \<open>xs\<close>, and \<open>range_assign_make\<close> below shows that every write is in range.)
\<close>

fun range_assign :: "('a \<Rightarrow> 'b) \<Rightarrow> 'a list \<Rightarrow> nat \<Rightarrow> 'b option list \<Rightarrow> 'b option list" where
  "range_assign f [] i out = out"
| "range_assign f (x # xs) i out = range_assign f xs (Suc i) (out[i := Some (f x)])"

section \<open>Backend and wire records\<close>

text \<open>
  The declarations of \<^verbatim>\<open>internal/backend\<close>, of \<^verbatim>\<open>cloud.google.com/go/storage\<close> and of
  the generated protobuf package are not part of the two files verified here, so the
  records hold the fields that \<^verbatim>\<open>grpc_server.go\<close> reads or writes. Fields of the wire
  records that the server never sets stay at their Go zero value.
\<close>

record Time =
  Unix :: int
  Nanosecond :: int

record Timestamp =
  Seconds :: int
  Nanos :: int

definition timestamppb_New :: "Time \<Rightarrow> Timestamp" where
  "timestamppb_New t = \<lparr>Seconds = Unix t, Nanos = Nanosecond t\<rparr>"

record ProjectTeam =
  ProjectNumber :: string
  Team :: string

record ACLRule =
  acl_Entity :: string
  acl_EntityID :: string
  acl_Role :: string
  acl_Domain :: string
  acl_Email :: string
  acl_ProjectTeam :: "ProjectTeam option"

record Bucket =
  bkt_Name :: string
  bkt_VersioningEnabled :: bool

text \<open>
  Modelled from the spec: \<^verbatim>\<open>backend.ObjectAttrs\<close> and \<^verbatim>\<open>backend.Object\<close>, which embeds
  it, are declared in \<^verbatim>\<open>internal/backend\<close>. The fields are those the server names, and
  \<open>Size\<close>, the stored size the specification speaks of, which the server never reads.
\<close>

record ObjectAttrs =
  BucketName :: string
  Name :: string
  Size :: int
  ContentType :: string
  ContentEncoding :: string
  Crc32c :: string
  Md5Hash :: string
  Etag :: string
  ACL :: "ACLRule list"
  Metadata :: "string \<rightharpoonup> string"
  Created :: Time
  Deleted :: Time
  Updated :: Time
  Generation :: int

record Object = ObjectAttrs +
  Content :: "byte list"

text \<open>
  Modelled from the spec: the server's own object type (\<^verbatim>\<open>fakestorage.Object\<close>), as
  \<open>fromBackendObjects\<close> returns it; it is declared in another file of the package. It has
  the fields of the committed object of the specification.
\<close>

record fs_Object =
  fs_BucketName :: string
  fs_Name :: string
  fs_Size :: int
  fs_ContentType :: string
  fs_ContentEncoding :: string
  fs_Crc32c :: string
  fs_Md5Hash :: string
  fs_Etag :: string
  fs_ACL :: "ACLRule list"
  fs_Metadata :: "string \<rightharpoonup> string"
  fs_Created :: Time
  fs_Deleted :: Time
  fs_Updated :: Time
  fs_Generation :: int
  fs_Content :: "byte list"

record pb_ProjectTeam =
  pt_ProjectNumber :: string
  pt_Team :: string

record pb_ObjectAccessControl =
  oac_Role :: string
  oac_Id :: string
  oac_Entity :: string
  oac_Email :: string
  oac_Domain :: string
  oac_ProjectTeam :: "pb_ProjectTeam option"

record pb_ObjectChecksums =
  cs_Crc32C :: "uint32 option"
  cs_Md5Hash :: "byte list"

record pb_Object =
  pb_Name :: string
  pb_Bucket :: string
  pb_Size :: int
  pb_Generation :: int
  pb_ContentType :: string
  pb_ContentEncoding :: string
  pb_CreateTime :: "Timestamp option"
  pb_DeleteTime :: "Timestamp option"
  pb_UpdateTime :: "Timestamp option"
  pb_Metadata :: "string \<rightharpoonup> string"
  pb_Checksums :: "pb_ObjectChecksums option"
  pb_Acl :: "pb_ObjectAccessControl option slice"

text \<open>\<^verbatim>\<open>&pb.Object{Name: n}\<close>: every other field at its zero value.\<close>

definition pb_Object_named :: "string \<Rightarrow> pb_Object" where
  "pb_Object_named n =
     \<lparr>pb_Name = n, pb_Bucket = [], pb_Size = 0, pb_Generation = 0, pb_ContentType = [],
      pb_ContentEncoding = [], pb_CreateTime = None, pb_DeleteTime = None,
      pb_UpdateTime = None, pb_Metadata = Map.empty, pb_Checksums = None, pb_Acl = None\<rparr>"

record pb_Bucket =
  pbb_Name :: string

record ListBucketsResponse =
  Buckets :: "pb_Bucket option slice"

record ListObjectsRequest =
  Parent :: string
  Prefix :: string
  Versions :: bool

record ListObjectsResponse =
  Objects :: "pb_Object option slice"

section \<open>The backend contract\<close>

text \<open>
  \<^verbatim>\<open>backend.Storage\<close> is an interface: the server works with any implementation. An
  implementation is a state of some type \<open>'st\<close> and one function per method, which
  returns the method's result (\<open>Inl\<close> a non-nil error) and the state after the call.
\<close>

record 'st Storage =
  CreateBucket :: "string \<Rightarrow> bool \<Rightarrow> 'st \<Rightarrow> error option \<times> 'st"
  Storage_ListBuckets :: "'st \<Rightarrow> (error + Bucket slice) \<times> 'st"
  Storage_ListObjects :: "string \<Rightarrow> string \<Rightarrow> bool \<Rightarrow> 'st \<Rightarrow> (error + Object slice) \<times> 'st"
  CreateObject :: "Object \<Rightarrow> 'st \<Rightarrow> (error + Object) \<times> 'st"

record 'st StorageServer =
  backend :: "'st Storage"
  url :: string
  externalURL :: string

record CreateBucketOpts =
  opts_Name :: string
  opts_VersioningEnabled :: bool

section \<open>Server identity and listings\<close>

definition URL :: "'st StorageServer \<Rightarrow> string" where
  "URL s = (if externalURL s \<noteq> [] then externalURL s
            else if url s \<noteq> [] then url s
            else [])"

definition CreateBucketWithOpts :: "'st StorageServer \<Rightarrow> CreateBucketOpts \<Rightarrow> 'st \<Rightarrow> unit result \<times> 'st" where
  "CreateBucketWithOpts s opts st =
     (case CreateBucket (backend s) (opts_Name opts) (opts_VersioningEnabled opts) st of
        (Some err, st') \<Rightarrow> (Panic ''CreateBucket'', st')
      | (None, st') \<Rightarrow> (Ok (), st'))"

text \<open>
  \<open>ListBuckets\<close> ignores its context and its request (both parameters are unnamed in
  the source), so the model takes neither.
\<close>

definition ListBuckets :: "'st StorageServer \<Rightarrow> 'st \<Rightarrow> ListBucketsResponse result \<times> 'st" where
  "ListBuckets s st =
     (case Storage_ListBuckets (backend s) st of
        (Inl err, st') \<Rightarrow> (Err err, st')
      | (Inr buckets, st') \<Rightarrow>
          (let resp = \<lparr>Buckets = Some (make_slice (len buckets))\<rparr>;
               resp = resp\<lparr>Buckets :=
                 Some (range_assign (\<lambda>bucket. \<lparr>pbb_Name = bkt_Name bucket\<rparr>)
                         (elems buckets) 0 (elems (Buckets resp)))\<rparr>
           in (Ok resp, st')))"

definition ListObjects :: "'st StorageServer \<Rightarrow> ListObjectsRequest \<Rightarrow> 'st \<Rightarrow> ListObjectsResponse result \<times> 'st" where
  "ListObjects s req st =
     (case Storage_ListObjects (backend s) (Parent req) (Prefix req) (Versions req) st of
        (Inl err, st') \<Rightarrow> (Err err, st')
      | (Inr objects, st') \<Rightarrow>
          (let resp = \<lparr>Objects = Some (make_slice (len objects))\<rparr>;
               resp = resp\<lparr>Objects :=
                 Some (range_assign (\<lambda>object. pb_Object_named (Name object))
                         (elems objects) 0 (elems (Objects resp)))\<rparr>
           in (Ok resp, st')))"

section \<open>Checksum codec\<close>

text \<open>
  Modelled from the spec: \<^verbatim>\<open>checksum.EncodedMd5Hash\<close> lives in \<^verbatim>\<open>internal/checksum\<close>, which is
  not among the files verified here. The specification describes it as the base64
  encoding of the MD5 digest of the content, so it is modelled as MD5 (RFC 1321) followed
  by the standard base64 encoding with padding (RFC 4648).
\<close>

definition md5_K :: "uint32 list" where
  "md5_K =
    [0xd76aa478, 0xe8c7b756, 0x242070db, 0xc1bdceee, 0xf57c0faf, 0x4787c62a, 0xa8304613, 0xfd469501,
     0x698098d8, 0x8b44f7af, 0xffff5bb1, 0x895cd7be, 0x6b901122, 0xfd987193, 0xa679438e, 0x49b40821,
     0xf61e2562, 0xc040b340, 0x265e5a51, 0xe9b6c7aa, 0xd62f105d, 0x02441453, 0xd8a1e681, 0xe7d3fbc8,
     0x21e1cde6, 0xc33707d6, 0xf4d50d87, 0x455a14ed, 0xa9e3e905, 0xfcefa3f8, 0x676f02d9, 0x8d2a4c8a,
     0xfffa3942, 0x8771f681, 0x6d9d6122, 0xfde5380c, 0xa4beea44, 0x4bdecfa9, 0xf6bb4b60, 0xbebfbc70,
     0x289b7ec6, 0xeaa127fa, 0xd4ef3085, 0x04881d05, 0xd9d4d039, 0xe6db99e5, 0x1fa27cf8, 0xc4ac5665,
     0xf4292244, 0x432aff97, 0xab9423a7, 0xfc93a039, 0x655b59c3, 0x8f0ccc92, 0xffeff47d, 0x85845dd1,
     0x6fa87e4f, 0xfe2ce6e0, 0xa3014314, 0x4e0811a1, 0xf7537e82, 0xbd3af235, 0x2ad7d2bb, 0xeb86d391]"

definition md5_S :: "nat list" where
  "md5_S =
    [7, 12, 17, 22, 7, 12, 17, 22, 7, 12, 17, 22, 7, 12, 17, 22,
     5, 9, 14, 20, 5, 9, 14, 20, 5, 9, 14, 20, 5, 9, 14, 20,
     4, 11, 16, 23, 4, 11, 16, 23, 4, 11, 16, 23, 4, 11, 16, 23,
     6, 10, 15, 21, 6, 10, 15, 21, 6, 10, 15, 21, 6, 10, 15, 21]"

definition rotl32 :: "uint32 \<Rightarrow> nat \<Rightarrow> uint32" where
  "rotl32 x c = push_bit c x OR drop_bit (32 - c) x"

text \<open>Padding: a 1 bit, zeros up to 56 modulo 64, the bit length as 8 little-endian bytes.\<close>

definition md5_pad :: "byte list \<Rightarrow> byte list" where
  "md5_pad msg =
     (let n = length msg;
          bits = (of_nat (8 * n) :: 64 word)
      in msg @ [0x80] @ replicate ((119 - n mod 64) mod 64) 0
           @ map (\<lambda>i. ucast (drop_bit (8 * i) bits)) [0..<8])"

definition le32 :: "byte list \<Rightarrow> uint32" where
  "le32 bs = foldr (\<lambda>b w. ucast b OR push_bit 8 w) bs 0"

definition bytes_le32 :: "uint32 \<Rightarrow> byte list" where
  "bytes_le32 w = map (\<lambda>i. ucast (drop_bit (8 * i) w)) [0..<4]"

type_synonym md5_state = "uint32 \<times> uint32 \<times> uint32 \<times> uint32"

definition md5_step :: "uint32 list \<Rightarrow> md5_state \<Rightarrow> nat \<Rightarrow> md5_state" where
  "md5_step M st i =
     (case st of (A, B, C, D) \<Rightarrow>
        let (F, g) =
              (if i < 16 then ((B AND C) OR (NOT B AND D), i)
               else if i < 32 then ((D AND B) OR (NOT D AND C), (5 * i + 1) mod 16)
               else if i < 48 then (B XOR C XOR D, (3 * i + 5) mod 16)
               else (C XOR (B OR NOT D), (7 * i) mod 16));
            F = F + A + md5_K ! i + M ! g
        in (D, B + rotl32 F (md5_S ! i), B, C))"

definition md5_block :: "md5_state \<Rightarrow> byte list \<Rightarrow> md5_state" where
  "md5_block st block =
     (case st of (a0, b0, c0, d0) \<Rightarrow>
        let M = map (\<lambda>i. le32 (take 4 (drop (4 * i) block))) [0..<16]
        in case foldl (md5_step M) st [0..<64] of
             (A, B, C, D) \<Rightarrow> (a0 + A, b0 + B, c0 + C, d0 + D))"

text \<open>
  Modelled from the spec: the MD5 digest (\<^verbatim>\<open>checksum.MD5Hash\<close>), 16 bytes: the padded
  content is cut into blocks of 64 bytes, and the four words of the state come out in
  little-endian order.
\<close>

definition MD5Hash :: "byte list \<Rightarrow> byte list" where
  "MD5Hash b =
     (let m = md5_pad b;
          blocks = map (\<lambda>i. take 64 (drop (64 * i) m)) [0..<length m div 64]
      in case foldl md5_block (0x67452301, 0xefcdab89, 0x98badcfe, 0x10325476) blocks of
           (a, b, c, d) \<Rightarrow> concat (map bytes_le32 [a, b, c, d]))"

text \<open>
  Modelled from the spec: the base64 encoding of a digest (\<^verbatim>\<open>checksum.EncodedHash\<close>), with
  the standard alphabet: three bytes give four characters, and a last group of one or two
  bytes is padded with \<^verbatim>\<open>=\<close>.
\<close>

definition encodeStd :: string where
  "encodeStd = ''ABCDEFGHIJKLMNOPQRSTUVWXYZabcdefghijklmnopqrstuvwxyz0123456789+/''"

definition enc64 :: "byte \<Rightarrow> char" where
  "enc64 v = encodeStd ! unat (v AND 0x3F)"

fun EncodedHash :: "byte list \<Rightarrow> string" where
  "EncodedHash (a # b # c # rest) =
     [enc64 (drop_bit 2 a),
      enc64 (push_bit 4 a OR drop_bit 4 b),
      enc64 (push_bit 2 b OR drop_bit 6 c),
      enc64 c] @ EncodedHash rest"
| "EncodedHash [a, b] =
     [enc64 (drop_bit 2 a),
      enc64 (push_bit 4 a OR drop_bit 4 b),
      enc64 (push_bit 2 b),
      CHR ''='']"
| "EncodedHash [a] =
     [enc64 (drop_bit 2 a),
      enc64 (push_bit 4 a),
      CHR ''='', CHR ''='']"
| "EncodedHash [] = []"

text \<open>
  Modelled from the spec: \<^verbatim>\<open>checksum.EncodedMd5Hash\<close>, the base64 text of the MD5 digest of
  the content.
\<close>

definition EncodedMd5Hash :: "byte list \<Rightarrow> string" where
  "EncodedMd5Hash content = EncodedHash (MD5Hash content)"

section \<open>Formatting and parsing\<close>

text \<open>
  \<^verbatim>\<open>fmt.Sprintf("%q", s)\<close> is \<^verbatim>\<open>strconv.Quote(s)\<close>: the string between double quotes, with
  a backslash before each double quote and backslash, printable ASCII copied, the
  control characters that have a short escape written with it, and every other byte
  below 0x80 written as \<^verbatim>\<open>\x\<close> and two hexadecimal digits. A byte from 0x80 on is written
  as \<^verbatim>\<open>\x\<close> and two digits as well, which is what Go does with a byte that is not part
  of a valid UTF-8 sequence; Go copies a printable multi-byte character and writes the
  others with \<^verbatim>\<open>\u\<close>, from Unicode tables that are not modelled. The server quotes
  nothing but the output of \<open>EncodedMd5Hash\<close>, which is ASCII (\<open>EncodedHash_alphabet\<close>).
\<close>

definition lowerhex :: string where
  "lowerhex = ''0123456789abcdef''"

definition appendEscapedRune :: "char \<Rightarrow> string" where
  "appendEscapedRune c =
     (let r = (of_char c :: nat)
      in if r = 0x22 \<or> r = 0x5C then [CHR 0x5C, c]
         else if 0x20 \<le> r \<and> r < 0x7F then [c]
         else if r = 7 then [CHR 0x5C, CHR ''a'']
         else if r = 8 then [CHR 0x5C, CHR ''b'']
         else if r = 12 then [CHR 0x5C, CHR ''f'']
         else if r = 10 then [CHR 0x5C, CHR ''n'']
         else if r = 13 then [CHR 0x5C, CHR ''r'']
         else if r = 9 then [CHR 0x5C, CHR ''t'']
         else if r = 11 then [CHR 0x5C, CHR ''v'']
         else [CHR 0x5C, CHR ''x'', lowerhex ! (r div 16), lowerhex ! (r mod 16)])"

definition Quote :: "string \<Rightarrow> string" where
  "Quote s = [CHR 0x22] @ concat (map appendEscapedRune s) @ [CHR 0x22]"

text \<open>
  \<^verbatim>\<open>fmt.Sprint\<close> of a \<^verbatim>\<open>uint32\<close>: its decimal digits, most significant first, with no
  sign and no leading zero; \<^verbatim>\<open>"0"\<close> for zero.
\<close>

fun formatBits :: "nat \<Rightarrow> string" where
  "formatBits u =
     (if u < 10 then [char_of (48 + u)]
      else formatBits (u div 10) @ [char_of (48 + u mod 10)])"

declare formatBits.simps [simp del]

definition Sprint :: "uint32 \<Rightarrow> string" where
  "Sprint x = formatBits (unat x)"

text \<open>
  \<^verbatim>\<open>strconv.ParseUint(s, 10, bitSize)\<close>. The accumulator \<open>n\<close> is a \<^verbatim>\<open>uint64\<close>: the product
  and the sum wrap around at \<open>2 ^ 64\<close>, and the tests of the source (\<open>n \<ge> cutoff\<close>,
  \<open>n1 < n\<close>, \<open>n1 > maxVal\<close>) are the ones that catch it. At base 10 a letter is a digit
  that is too large, so every byte but \<^verbatim>\<open>0\<close> to \<^verbatim>\<open>9\<close> is a syntax error; a sign and an
  underscore are syntax errors too. The error holds the whole input. \<open>bitSize\<close> is
  between 1 and 64; the server passes 32.
\<close>

definition cutoff :: nat where
  "cutoff = (2 ^ 64 - 1) div 10 + 1"

fun ParseUint_loop :: "string \<Rightarrow> nat \<Rightarrow> string \<Rightarrow> nat \<Rightarrow> error + nat" where
  "ParseUint_loop s0 maxVal [] n = Inr n"
| "ParseUint_loop s0 maxVal (c # cs) n =
     (if \<not> (48 \<le> (of_char c :: nat) \<and> (of_char c :: nat) \<le> 57)
      then Inl (NumError ''ParseUint'' s0 ErrSyntax)
      else let d = (of_char c :: nat) - 48
           in if n \<ge> cutoff then Inl (NumError ''ParseUint'' s0 ErrRange)
              else let n = (n * 10) mod 2 ^ 64;
                       n1 = (n + d) mod 2 ^ 64
                   in if n1 < n \<or> n1 > maxVal then Inl (NumError ''ParseUint'' s0 ErrRange)
                      else ParseUint_loop s0 maxVal cs n1)"

definition ParseUint :: "string \<Rightarrow> nat \<Rightarrow> error + nat" where
  "ParseUint s bitSize =
     (if s = [] then Inl (NumError ''ParseUint'' s ErrSyntax)
      else ParseUint_loop s (2 ^ bitSize - 1) s 0)"

section \<open>The upload stream\<close>

text \<open>
  A \<^verbatim>\<open>WriteObjectRequest\<close> has two \<^verbatim>\<open>oneof\<close> groups: the first message (an upload id or a
  \<^verbatim>\<open>WriteObjectSpec\<close>) and the data (\<^verbatim>\<open>ChecksummedData\<close>). A group that is not set is
  \<open>None\<close>; so is a group whose wrapper holds a nil pointer, which the getters read as
  nil as well. The checksum of the data is an optional field (\<^verbatim>\<open>*uint32\<close>), the resource
  of the spec a pointer that may be nil.
\<close>

record ChecksummedData =
  cd_Content :: "byte list"
  cd_Crc32C :: "uint32 option"

record WriteObjectSpec =
  Resource :: "pb_Object option"
  PredefinedAcl :: string

datatype FirstMessage =
    WriteObjectRequest_UploadId string
  | WriteObjectRequest_WriteObjectSpec WriteObjectSpec

record WriteObjectRequest =
  FirstMessage :: "FirstMessage option"
  Data :: "ChecksummedData option"

text \<open>The generated getters accept a nil receiver and return nil on it.\<close>

definition GetChecksummedData :: "WriteObjectRequest option \<Rightarrow> ChecksummedData option" where
  "GetChecksummedData x = (case x of None \<Rightarrow> None | Some m \<Rightarrow> Data m)"

definition GetWriteObjectSpec :: "WriteObjectRequest option \<Rightarrow> WriteObjectSpec option" where
  "GetWriteObjectSpec x =
     (case x of
        None \<Rightarrow> None
      | Some m \<Rightarrow>
          (case FirstMessage m of
             Some (WriteObjectRequest_WriteObjectSpec spec) \<Rightarrow> Some spec
           | _ \<Rightarrow> None))"

datatype WriteStatus =
    WriteObjectResponse_PersistedSize int
  | WriteObjectResponse_Resource pb_Object

record WriteObjectResponse =
  WriteStatus :: "WriteStatus option"

text \<open>
  The server side of the client stream (\<^verbatim>\<open>pb.Storage_WriteObjectServer\<close>): what the
  successive calls of \<^verbatim>\<open>Recv\<close> will return (a message, or an error of the transport; the
  end of the stream is \<^verbatim>\<open>io.EOF\<close>), the responses handed to \<^verbatim>\<open>SendAndClose\<close> so far, and
  the error \<^verbatim>\<open>SendAndClose\<close> returns (nil when the transport is sound).
\<close>

record WriteObjectServer =
  incoming :: "(error + WriteObjectRequest) list"
  sent :: "WriteObjectResponse list"
  send_error :: "error option"

definition Recv :: "WriteObjectServer \<Rightarrow> (WriteObjectRequest option \<times> error option) \<times> WriteObjectServer" where
  "Recv ws =
     (case incoming ws of
        [] \<Rightarrow> ((None, Some EOF), ws)
      | Inl err # rest \<Rightarrow> ((None, Some err), ws\<lparr>incoming := rest\<rparr>)
      | Inr m # rest \<Rightarrow> ((Some m, None), ws\<lparr>incoming := rest\<rparr>))"

definition SendAndClose :: "WriteObjectServer \<Rightarrow> WriteObjectResponse \<Rightarrow> error option \<times> WriteObjectServer" where
  "SendAndClose ws m = (send_error ws, ws\<lparr>sent := sent ws @ [m]\<rparr>)"

section \<open>WriteObject\<close>

text \<open>
  Modelled from the spec: \<^verbatim>\<open>fromBackendObjects\<close> is a function of the package that is not
  in \<^verbatim>\<open>grpc_server.go\<close>. The specification has the translation layer map every field of
  the backend's committed object onto its counterpart, so each backend object becomes
  one server object with the same fields, in the same order.
\<close>

definition fromBackendObject :: "Object \<Rightarrow> fs_Object" where
  "fromBackendObject o' =
     \<lparr>fs_BucketName = BucketName o', fs_Name = Name o', fs_Size = Size o',
      fs_ContentType = ContentType o', fs_ContentEncoding = ContentEncoding o',
      fs_Crc32c = Crc32c o', fs_Md5Hash = Md5Hash o', fs_Etag = Etag o', fs_ACL = ACL o',
      fs_Metadata = Metadata o', fs_Created = Created o', fs_Deleted = Deleted o',
      fs_Updated = Updated o', fs_Generation = Generation o', fs_Content = Content o'\<rparr>"

text \<open>
  Modelled from the spec: \<^verbatim>\<open>fromBackendObjects\<close> translates a list of backend objects
  element by element.
\<close>

definition fromBackendObjects :: "Object list \<Rightarrow> fs_Object list" where
  "fromBackendObjects objects = map fromBackendObject objects"

text \<open>The zero \<^verbatim>\<open>time.Time\<close>: January 1 of year 1, which is before the Unix epoch.\<close>

definition zeroTime :: Time where
  "zeroTime = \<lparr>Unix = - 62135596800, Nanosecond = 0\<rparr>"

text \<open>
  Lines 90 to 105: the write request. \<open>getObjectACL\<close> is a function of the package that
  is not in \<^verbatim>\<open>grpc_server.go\<close>; it is a parameter. The fields the literal does not name are
  zero. The checksum of the data, when there is one, is written in decimal.
\<close>

definition writeRequest :: "(string \<Rightarrow> ACLRule list) \<Rightarrow> ChecksummedData \<Rightarrow> WriteObjectSpec \<Rightarrow> pb_Object \<Rightarrow> Object" where
  "writeRequest getObjectACL data spec resource =
     (let md5Hash = EncodedMd5Hash (cd_Content data);
          reqObj =
            \<lparr>BucketName = pb_Bucket resource,
             Name = pb_Name resource,
             Size = 0,
             ContentType = pb_ContentType resource,
             ContentEncoding = pb_ContentEncoding resource,
             Crc32c = [],
             Md5Hash = md5Hash,
             Etag = Quote md5Hash,
             ACL = getObjectACL (PredefinedAcl spec),
             Metadata = Map.empty,
             Created = zeroTime, Deleted = zeroTime, Updated = zeroTime,
             Generation = 0,
             Content = cd_Content data\<rparr>
      in case cd_Crc32C data of
           None \<Rightarrow> reqObj
         | Some c \<Rightarrow> reqObj\<lparr>Crc32c := Sprint c\<rparr>)"

text \<open>Lines 119 to 131: one access-control entry of the response.\<close>

definition respAcl :: "ACLRule \<Rightarrow> pb_ObjectAccessControl" where
  "respAcl acl =
     (let r = \<lparr>oac_Role = acl_Role acl, oac_Id = acl_EntityID acl, oac_Entity = acl_Entity acl,
               oac_Email = acl_Email acl, oac_Domain = acl_Domain acl, oac_ProjectTeam = None\<rparr>
      in case acl_ProjectTeam acl of
           None \<Rightarrow> r
         | Some pt \<Rightarrow>
             r\<lparr>oac_ProjectTeam :=
                 Some \<lparr>pt_ProjectNumber = ProjectNumber pt, pt_Team = Team pt\<rparr>\<rparr>)"

text \<open>
  Lines 117 to 153: the response built from the created object and its parsed checksum.
  \<^verbatim>\<open>int64(len(created.Content))\<close> is exact: a Go length is below \<open>2 ^ 63\<close>.
\<close>

definition writeResponse :: "fs_Object \<Rightarrow> uint32 \<Rightarrow> WriteObjectResponse" where
  "writeResponse created crc32c =
     (let respAcls = make_slice (length (fs_ACL created));
          respAcls = range_assign respAcl (fs_ACL created) 0 respAcls
      in \<lparr>WriteStatus = Some (WriteObjectResponse_Resource
            \<lparr>pb_Name = fs_Name created,
             pb_Bucket = fs_BucketName created,
             pb_Size = int (length (fs_Content created)),
             pb_Generation = fs_Generation created,
             pb_ContentType = fs_ContentType created,
             pb_ContentEncoding = fs_ContentEncoding created,
             pb_CreateTime = Some (timestamppb_New (fs_Created created)),
             pb_DeleteTime = Some (timestamppb_New (fs_Deleted created)),
             pb_UpdateTime = Some (timestamppb_New (fs_Updated created)),
             pb_Metadata = fs_Metadata created,
             pb_Checksums = Some \<lparr>cs_Crc32C = Some crc32c,
                                   cs_Md5Hash = map of_char (fs_Md5Hash created)\<rparr>,
             pb_Acl = Some respAcls\<rparr>)\<rparr>)"

text \<open>
  \<open>WriteObject\<close> calls \<^verbatim>\<open>Recv\<close> once and never looks at the error it returns. It returns
  the stream and the backend state as they are when it ends. Reading a field of a nil
  \<^verbatim>\<open>spec.Resource\<close> is a nil pointer dereference.
\<close>

definition WriteObject :: "(string \<Rightarrow> ACLRule list) \<Rightarrow> 'st StorageServer \<Rightarrow> WriteObjectServer \<Rightarrow> 'st \<Rightarrow> unit result \<times> WriteObjectServer \<times> 'st" where
  "WriteObject getObjectACL s writeServer st =
     (case Recv writeServer of
        ((req, err), writeServer) \<Rightarrow>
          (case GetChecksummedData req of
             None \<Rightarrow> (Err errUnsupportedWriteOperation, writeServer, st)
           | Some data \<Rightarrow>
               (case GetWriteObjectSpec req of
                  None \<Rightarrow> (Err errUnsupportedWriteOperation, writeServer, st)
                | Some spec \<Rightarrow>
                    (case Resource spec of
                       None \<Rightarrow> (Panic ''nil pointer dereference'', writeServer, st)
                     | Some resource \<Rightarrow>
                         (case CreateObject (backend s) (writeRequest getObjectACL data spec resource) st of
                            (Inl err, st) \<Rightarrow> (Err err, writeServer, st)
                          | (Inr backendObj, st) \<Rightarrow>
                              (case fromBackendObjects [backendObj] of
                                 [] \<Rightarrow> (Panic ''index out of range'', writeServer, st)
                               | created # _ \<Rightarrow>
                                   (case ParseUint (fs_Crc32c created) 32 of
                                      Inl err \<Rightarrow> (Err err, writeServer, st)
                                    | Inr maybeCrc32c \<Rightarrow>
                                        (let crc32c = (of_nat maybeCrc32c :: uint32)
                                         in case SendAndClose writeServer (writeResponse created crc32c) of
                                              (None, writeServer) \<Rightarrow> (Ok (), writeServer, st)
                                            | (Some err, writeServer) \<Rightarrow> (Err err, writeServer, st)))))))))"

section \<open>Backends for testing\<close>

text \<open>
  A spy around a backend: it passes every call on and keeps a log of the calls, the way a
  test records what the server asked of its backend.
\<close>

datatype call =
    Call_CreateBucket string bool
  | Call_ListBuckets
  | Call_ListObjects string string bool
  | Call_CreateObject Object

definition spy :: "'st Storage \<Rightarrow> (call list \<times> 'st) Storage" where
  "spy b =
     \<lparr>CreateBucket = (\<lambda>name versioning (log, st).
        case CreateBucket b name versioning st of
          (r, st') \<Rightarrow> (r, (log @ [Call_CreateBucket name versioning], st'))),
      Storage_ListBuckets = (\<lambda>(log, st).
        case Storage_ListBuckets b st of
          (r, st') \<Rightarrow> (r, (log @ [Call_ListBuckets], st'))),
      Storage_ListObjects = (\<lambda>parent prefix versions (log, st).
        case Storage_ListObjects b parent prefix versions st of
          (r, st') \<Rightarrow> (r, (log @ [Call_ListObjects parent prefix versions], st'))),
      CreateObject = (\<lambda>obj (log, st).
        case CreateObject b obj st of
          (r, st') \<Rightarrow> (r, (log @ [Call_CreateObject obj], st')))\<rparr>"

definition with_spy :: "'st StorageServer \<Rightarrow> (call list \<times> 'st) StorageServer" where
  "with_spy s = \<lparr>backend = spy (backend s), url = url s, externalURL = externalURL s\<rparr>"

text \<open>
  A small backend in memory, for worked examples: its state is the buckets and the
  objects it holds. \<open>commit\<close> is what it makes of a write request (the object it stores
  and returns, or an error); with \<open>Inr\<close> it stores the request as it is.
\<close>

record memory =
  buckets :: "Bucket list"
  objects :: "Object list"

definition memory_backend :: "(Object \<Rightarrow> error + Object) \<Rightarrow> memory Storage" where
  "memory_backend commit =
     \<lparr>CreateBucket = (\<lambda>name versioning st.
        (None, st\<lparr>buckets := buckets st @ [\<lparr>bkt_Name = name, bkt_VersioningEnabled = versioning\<rparr>]\<rparr>)),
      Storage_ListBuckets = (\<lambda>st. (Inr (Some (buckets st)), st)),
      Storage_ListObjects = (\<lambda>parent prefix versions st.
        (Inr (Some (filter (\<lambda>obj. BucketName obj = parent \<and> take (length prefix) (Name obj) = prefix)
                      (objects st))), st)),
      CreateObject = (\<lambda>obj st.
        case commit obj of
          Inl err \<Rightarrow> (Inl err, st)
        | Inr stored \<Rightarrow> (Inr stored, st\<lparr>objects := objects st @ [stored]\<rparr>))\<rparr>"

definition memory_server :: "(Object \<Rightarrow> error + Object) \<Rightarrow> memory StorageServer" where
  "memory_server commit = \<lparr>backend = memory_backend commit, url = ''localhost:8080'', externalURL = []\<rparr>"

text \<open>A backend that is out of order: every call returns the error \<open>e\<close>.\<close>

definition failing_backend :: "error \<Rightarrow> unit Storage" where
  "failing_backend e =
     \<lparr>CreateBucket = (\<lambda>name versioning st. (Some e, st)),
      Storage_ListBuckets = (\<lambda>st. (Inl e, st)),
      Storage_ListObjects = (\<lambda>parent prefix versions st. (Inl e, st)),
      CreateObject = (\<lambda>obj st. (Inl e, st))\<rparr>"

definition failing_server :: "error \<Rightarrow> unit StorageServer" where
  "failing_server e = \<lparr>backend = failing_backend e, url = ''localhost:8080'', externalURL = []\<rparr>"

section \<open>The payload of a stream\<close>

text \<open>
  The payload of a whole stream in the words of the specification: the payload bytes of
  all its frames, concatenated in arrival order.
\<close>

definition frames_payload :: "WriteObjectRequest list \<Rightarrow> byte list" where
  "frames_payload frames =
     concat (map (\<lambda>m. case Data m of None \<Rightarrow> [] | Some d \<Rightarrow> cd_Content d) frames)"

section \<open>Inputs of the worked examples\<close>

text \<open>
  An upload of object \<^verbatim>\<open>o\<close> to bucket \<^verbatim>\<open>b\<close>: the first frame carries the spec and some
  content, with or without a checksum; a later frame carries content only. The
  resolution of the predefined ACL follows the two presets of the emulator.
\<close>

definition example_getObjectACL :: "string \<Rightarrow> ACLRule list" where
  "example_getObjectACL predefinedACL =
     (if predefinedACL = ''publicRead''
      then [\<lparr>acl_Entity = ''allUsers'', acl_EntityID = [], acl_Role = ''READER'',
              acl_Domain = [], acl_Email = [], acl_ProjectTeam = None\<rparr>]
      else [\<lparr>acl_Entity = ''projectOwner-test-project'', acl_EntityID = [], acl_Role = ''OWNER'',
              acl_Domain = [], acl_Email = [], acl_ProjectTeam = None\<rparr>])"

definition example_resource :: pb_Object where
  "example_resource = (pb_Object_named ''o'')\<lparr>pb_Bucket := ''b'', pb_ContentType := ''text/plain''\<rparr>"

definition example_spec :: WriteObjectSpec where
  "example_spec = \<lparr>Resource = Some example_resource, PredefinedAcl = ''publicRead''\<rparr>"

definition first_frame :: "byte list \<Rightarrow> uint32 option \<Rightarrow> WriteObjectRequest" where
  "first_frame content crc =
     \<lparr>FirstMessage = Some (WriteObjectRequest_WriteObjectSpec example_spec),
      Data = Some \<lparr>cd_Content = content, cd_Crc32C = crc\<rparr>\<rparr>"

definition data_frame :: "byte list \<Rightarrow> WriteObjectRequest" where
  "data_frame content =
     \<lparr>FirstMessage = None, Data = Some \<lparr>cd_Content = content, cd_Crc32C = None\<rparr>\<rparr>"

definition spec_frame :: WriteObjectRequest where
  "spec_frame = \<lparr>FirstMessage = Some (WriteObjectRequest_WriteObjectSpec example_spec), Data = None\<rparr>"

definition stream_of :: "(error + WriteObjectRequest) list \<Rightarrow> WriteObjectServer" where
  "stream_of rs = \<lparr>incoming = rs, sent = [], send_error = None\<rparr>"

definition empty_memory :: memory where
  "empty_memory = \<lparr>buckets = [], objects = []\<rparr>"

definition object_named :: "string \<Rightarrow> string \<Rightarrow> byte list \<Rightarrow> Object" where
  "object_named bucket name content =
     \<lparr>BucketName = bucket, Name = name, Size = int (length content), ContentType = [],
      ContentEncoding = [], Crc32c = [], Md5Hash = [], Etag = [], ACL = [],
      Metadata = Map.empty, Created = zeroTime, Deleted = zeroTime, Updated = zeroTime,
      Generation = 1, Content = content\<rparr>"

definition example_memory :: memory where
  "example_memory =
     \<lparr>buckets = [\<lparr>bkt_Name = ''b'', bkt_VersioningEnabled = False\<rparr>],
      objects = [object_named ''b'' ''img/a.png'' [1], object_named ''b'' ''doc.txt'' [2],
                 object_named ''c'' ''img/c.png'' [3], object_named ''b'' ''img/b.png'' [4]]\<rparr>"

definition hello :: "byte list" where
  "hello = map of_char ''hello''"

section \<open>Loops over slices\<close>

lemma range_assign_length: "length (range_assign f xs i out) = length out"
  by (induction xs arbitrary: i out) simp_all

lemma range_assign_append:
  "length pre = i \<Longrightarrow> length post = length xs \<Longrightarrow>
   range_assign f xs i (pre @ post) = pre @ map (\<lambda>x. Some (f x)) xs"
proof (induction xs arbitrary: i pre post)
  case Nil
  then show ?case by simp
next
  case (Cons x xs)
  then obtain p ps where post: "post = p # ps" and ps: "length ps = length xs"
    by (cases post) auto
  have upd: "(pre @ p # ps)[i := Some (f x)] = (pre @ [Some (f x)]) @ ps"
    using Cons.prems(1) by (simp add: list_update_append)
  have "range_assign f xs (Suc i) ((pre @ [Some (f x)]) @ ps)
        = (pre @ [Some (f x)]) @ map (\<lambda>x. Some (f x)) xs"
    using Cons.prems(1) ps by (intro Cons.IH) simp_all
  then show ?case
    by (simp add: post upd)
qed

lemma range_assign_make:
  "range_assign f xs 0 (make_slice (length xs)) = map (\<lambda>x. Some (f x)) xs"
  using range_assign_append [of "[]" 0 "make_slice (length xs)" xs f]
  by (simp add: make_slice_def)

lemma len_elems: "len s = length (elems s)"
  by (simp add: len_def elems_def split: option.splits)

section \<open>Decimal text of a checksum\<close>

lemma cutoff_value: "cutoff = 1844674407370955162"
  by (simp add: cutoff_def)

lemma ParseUint_loop_digit:
  assumes "d < 10" and "n * 10 + d \<le> M" and "M < 2 ^ 64"
  shows "ParseUint_loop s0 M (char_of (48 + d) # cs) n = ParseUint_loop s0 M cs (n * 10 + d)"
proof -
  have c: "(of_char (char_of (48 + d) :: char) :: nat) = 48 + d"
    using assms(1) by simp
  have lt: "n * 10 + d < 18446744073709551616" using assms(2,3) by simp
  then have n: "n < cutoff" by (simp add: cutoff_value)
  have lt': "n * 10 < 18446744073709551616" using lt by simp
  show ?thesis
    using assms(1,2) n lt lt' by (simp add: c Let_def del: of_char_of)
qed

lemma ParseUint_loop_formatBits:
  "u \<le> M \<Longrightarrow> M < 2 ^ 64 \<Longrightarrow>
   ParseUint_loop s0 M (formatBits u @ cs) 0 = ParseUint_loop s0 M cs u"
proof (induction u arbitrary: cs rule: formatBits.induct)
  case (1 u)
  show ?case
  proof (cases "u < 10")
    case True
    then have "formatBits u = [char_of (48 + u)]"
      by (simp add: formatBits.simps)
    then show ?thesis
      using ParseUint_loop_digit [of u 0 M s0 cs] True "1.prems" by simp
  next
    case False
    have fb: "formatBits u = formatBits (u div 10) @ [char_of (48 + u mod 10)]"
      using False by (subst formatBits.simps) simp
    have le: "u div 10 \<le> M" using "1.prems"(1) by simp
    have "ParseUint_loop s0 M (formatBits u @ cs) 0
          = ParseUint_loop s0 M (char_of (48 + u mod 10) # cs) (u div 10)"
      using "1.IH" [OF False le "1.prems"(2), of "char_of (48 + u mod 10) # cs"]
      by (simp add: fb)
    also have "\<dots> = ParseUint_loop s0 M cs (u div 10 * 10 + u mod 10)"
      using "1.prems" by (intro ParseUint_loop_digit) simp_all
    finally show ?thesis by simp
  qed
qed

lemma formatBits_not_empty: "formatBits u \<noteq> []"
  by (subst formatBits.simps) simp

lemma ParseUint_formatBits:
  "u < 2 ^ bitSize \<Longrightarrow> bitSize \<le> 64 \<Longrightarrow> ParseUint (formatBits u) bitSize = Inr u"
proof -
  assume u: "u < 2 ^ bitSize" and b: "bitSize \<le> 64"
  have "(2::nat) ^ bitSize \<le> 2 ^ 64" using b by (intro power_increasing) simp_all
  then have M: "(2::nat) ^ bitSize - 1 < 2 ^ 64" by simp
  have "ParseUint_loop (formatBits u) (2 ^ bitSize - 1) (formatBits u @ []) 0 = Inr u"
    using u M by (subst ParseUint_loop_formatBits) simp_all
  then show ?thesis
    by (simp add: ParseUint_def formatBits_not_empty)
qed

lemma ParseUint_Sprint: "ParseUint (Sprint x) 32 = Inr (unat x)"
proof -
  have "unat x < 2 ^ 32"
    using unsigned_less [of x] by simp
  then show ?thesis
    by (simp add: Sprint_def ParseUint_formatBits)
qed

section \<open>The entity tag of a hash\<close>

lemma length_encodeStd: "length encodeStd = 64"
  by (simp add: encodeStd_def)

lemma enc64_alphabet: "enc64 v \<in> set encodeStd"
proof -
  have "unat (v AND 0x3F) \<le> unat (0x3F :: byte)"
    by (rule word_and_le1 [THEN word_le_nat_alt [THEN iffD1]])
  then have "unat (v AND 0x3F) < length encodeStd"
    by (simp add: length_encodeStd)
  then show ?thesis
    unfolding enc64_def by (rule nth_mem)
qed

lemma appendEscapedRune_plain:
  "c \<in> set encodeStd \<or> c = CHR ''='' \<Longrightarrow> appendEscapedRune c = [c]"
  by (auto simp: encodeStd_def appendEscapedRune_def)

lemma EncodedHash_alphabet:
  "c \<in> set (EncodedHash bs) \<Longrightarrow> c \<in> set encodeStd \<or> c = CHR ''=''"
  by (induction bs rule: EncodedHash.induct) (auto simp: enc64_alphabet)

lemma EncodedMd5Hash_hello: "EncodedMd5Hash hello = ''XUFAKrxLKna5cZ2REBfFkg==''"
  by code_simp

lemma concat_appendEscapedRune_plain:
  "(\<And>c. c \<in> set s \<Longrightarrow> appendEscapedRune c = [c]) \<Longrightarrow> concat (map appendEscapedRune s) = s"
  by (induction s) simp_all

lemma Quote_EncodedHash:
  "Quote (EncodedHash bs) = CHR 0x22 # EncodedHash bs @ [CHR 0x22]"
  using concat_appendEscapedRune_plain [of "EncodedHash bs"]
  by (simp add: Quote_def EncodedHash_alphabet appendEscapedRune_plain)

section \<open>The paths through WriteObject\<close>

lemma Recv_message:
  "incoming ws = Inr m # rest \<Longrightarrow> Recv ws = ((Some m, None), ws\<lparr>incoming := rest\<rparr>)"
  by (simp add: Recv_def)

lemma Recv_failure:
  "incoming ws = [] \<or> incoming ws = Inl e # rest \<Longrightarrow> GetChecksummedData (fst (fst (Recv ws))) = None"
  by (auto simp: Recv_def GetChecksummedData_def)

lemma WriteObject_rejects:
  "GetChecksummedData (fst (fst (Recv ws))) = None \<or> GetWriteObjectSpec (fst (fst (Recv ws))) = None \<Longrightarrow>
   WriteObject g s ws st = (Err errUnsupportedWriteOperation, snd (Recv ws), st)"
  by (auto simp: WriteObject_def split: prod.splits option.splits)

lemma fromBackendObjects_single: "fromBackendObjects [obj] = [fromBackendObject obj]"
  by (simp add: fromBackendObjects_def)

lemma WriteObject_accepts:
  assumes "incoming ws = Inr m # rest" and "Data m = Some d"
    and "FirstMessage m = Some (WriteObjectRequest_WriteObjectSpec sp)"
    and "Resource sp = Some r"
  shows "WriteObject g s ws st =
     (case CreateObject (backend s) (writeRequest g d sp r) st of
        (Inl err, st') \<Rightarrow> (Err err, ws\<lparr>incoming := rest\<rparr>, st')
      | (Inr obj, st') \<Rightarrow>
          (case ParseUint (Crc32c obj) 32 of
             Inl err \<Rightarrow> (Err err, ws\<lparr>incoming := rest\<rparr>, st')
           | Inr n \<Rightarrow>
               ((case send_error ws of None \<Rightarrow> Ok () | Some err \<Rightarrow> Err err),
                ws\<lparr>incoming := rest,
                   sent := sent ws @ [writeResponse (fromBackendObject obj) (of_nat n)]\<rparr>,
                st')))"
  using assms
  by (simp add: WriteObject_def Recv_message GetChecksummedData_def GetWriteObjectSpec_def
      fromBackendObjects_single fromBackendObject_def SendAndClose_def
      split: prod.splits sum.splits option.splits)

lemma spy_CreateObject:
  "CreateObject (backend (with_spy s)) obj (log, st) =
     (fst (CreateObject (backend s) obj st), (log @ [Call_CreateObject obj], snd (CreateObject (backend s) obj st)))"
  by (simp add: with_spy_def spy_def split: prod.splits)

lemma example_upload:
  "WriteObject example_getObjectACL (with_spy (memory_server Inr))
       (stream_of (Inr (first_frame content crc) # rest)) ([], empty_memory)
   = (let req = writeRequest example_getObjectACL \<lparr>cd_Content = content, cd_Crc32C = crc\<rparr>
                  example_spec example_resource
      in case ParseUint (Crc32c req) 32 of
           Inl err \<Rightarrow> (Err err, stream_of rest, ([Call_CreateObject req], \<lparr>buckets = [], objects = [req]\<rparr>))
         | Inr n \<Rightarrow>
             (Ok (),
              \<lparr>incoming = rest, sent = [writeResponse (fromBackendObject req) (of_nat n)],
               send_error = None\<rparr>,
              ([Call_CreateObject req], \<lparr>buckets = [], objects = [req]\<rparr>)))"
  using WriteObject_accepts
          [of "stream_of (Inr (first_frame content crc) # rest)" "first_frame content crc" rest
              "\<lparr>cd_Content = content, cd_Crc32C = crc\<rparr>" example_spec example_resource
              example_getObjectACL "with_spy (memory_server Inr)" "([], empty_memory)"]
  by (simp add: stream_of_def first_frame_def example_spec_def spy_CreateObject
        memory_server_def memory_backend_def empty_memory_def Let_def split: sum.splits)

lemma writeRequest_Crc32c:
  "Crc32c (writeRequest g d sp r) = (case cd_Crc32C d of None \<Rightarrow> [] | Some c \<Rightarrow> Sprint c)"
  by (simp add: writeRequest_def Let_def split: option.splits)

lemma ParseUint_empty: "ParseUint [] bitSize = Inl (NumError ''ParseUint'' [] ErrSyntax)"
  by (simp add: ParseUint_def)

lemma ParseUint_7: "ParseUint ''7'' 32 = Inr 7"
  by (simp add: ParseUint_def cutoff_value)

lemma WriteObject_nil_resource:
  assumes "incoming ws = Inr m # rest" and "Data m = Some d"
    and "FirstMessage m = Some (WriteObjectRequest_WriteObjectSpec sp)"
    and "Resource sp = None"
  shows "WriteObject g s ws st = (Panic ''nil pointer dereference'', ws\<lparr>incoming := rest\<rparr>, st)"
  using assms
  by (simp add: WriteObject_def Recv_message GetChecksummedData_def GetWriteObjectSpec_def)

lemma WriteObject_spy_log:
  assumes "incoming ws = Inr m # rest" and "Data m = Some d"
    and "FirstMessage m = Some (WriteObjectRequest_WriteObjectSpec sp)"
    and "Resource sp = Some r"
  shows "fst (snd (snd (WriteObject g (with_spy s) ws (log, st))))
         = log @ [Call_CreateObject (writeRequest g d sp r)]"
  using WriteObject_accepts [OF assms, of g "with_spy s" "(log, st)"]
  by (simp add: spy_CreateObject split: sum.splits option.splits)

lemma WriteObject_backend_error:
  assumes "incoming ws = Inr m # rest" and "Data m = Some d"
    and "FirstMessage m = Some (WriteObjectRequest_WriteObjectSpec sp)"
    and "Resource sp = Some r"
    and "fst (CreateObject (backend s) (writeRequest g d sp r) st) = Inl e"
  shows "fst (WriteObject g s ws st) = Err e"
  using WriteObject_accepts [OF assms(1-4), of g s st] assms(5)
  by (simp split: prod.splits)

lemma WriteObject_acknowledged:
  assumes "incoming ws = Inr m # rest" and "Data m = Some d"
    and "FirstMessage m = Some (WriteObjectRequest_WriteObjectSpec sp)"
    and "Resource sp = Some r"
    and "fst (CreateObject (backend s) (writeRequest g d sp r) st) = Inr obj"
    and "ParseUint (Crc32c obj) 32 = Inr n"
  shows "WriteObject g s ws st =
           ((case send_error ws of None \<Rightarrow> Ok () | Some err \<Rightarrow> Err err),
            ws\<lparr>incoming := rest,
               sent := sent ws @ [writeResponse (fromBackendObject obj) (of_nat n)]\<rparr>,
            snd (CreateObject (backend s) (writeRequest g d sp r) st))"
  using WriteObject_accepts [OF assms(1-4), of g s st] assms(5,6)
  by (simp split: prod.splits)

lemma elems_Some: "elems (Some xs) = xs"
  by (simp add: elems_def)

lemma writeRequest_Content: "Content (writeRequest g d sp r) = cd_Content d"
  by (simp add: writeRequest_def Let_def split: option.splits)

lemma writeRequest_Md5Hash: "Md5Hash (writeRequest g d sp r) = EncodedMd5Hash (cd_Content d)"
  by (simp add: writeRequest_def Let_def split: option.splits)

lemma writeRequest_Etag: "Etag (writeRequest g d sp r) = Quote (EncodedMd5Hash (cd_Content d))"
  by (simp add: writeRequest_def Let_def split: option.splits)

lemma WriteObject_reads_one_frame:
  assumes "incoming ws = Inr m # rest"
  shows "incoming (fst (snd (WriteObject g s ws st))) = rest"
  using assms
  by (simp add: WriteObject_def Recv_message SendAndClose_def Let_def
      split: prod.splits option.splits sum.splits list.splits)

lemma writeResponse_Size:
  "\<exists>resource. writeResponse created crc32c = \<lparr>WriteStatus = Some (WriteObjectResponse_Resource resource)\<rparr>
      \<and> pb_Size resource = int (length (fs_Content created))"
  by (simp add: writeResponse_def Let_def)

lemma fromBackendObject_Content: "fs_Content (fromBackendObject obj) = Content obj"
  by (simp add: fromBackendObject_def)

lemma fromBackendObject_Size: "fs_Size (fromBackendObject obj) = Size obj"
  by (simp add: fromBackendObject_def)

section \<open>Claims\<close>

subsection \<open>C1: protocol violations are rejected before the backend\<close>

text \<open>
  C1, as stated, has the server reject a first message that lacks a non-empty payload.
  The server tests whether the data is there, not whether it is empty: a first message
  with a spec and a data part of zero bytes is accepted, the backend's \<open>CreateObject\<close> is
  called and the upload is acknowledged.
\<close>

theorem empty_payload_counterexample:
  "cd_Content \<lparr>cd_Content = [], cd_Crc32C = Some 0\<rparr> = []
   \<and> fst (WriteObject example_getObjectACL (with_spy (memory_server Inr))
            (stream_of [Inr (first_frame [] (Some 0))]) ([], empty_memory)) = Ok ()
   \<and> fst (snd (snd (WriteObject example_getObjectACL (with_spy (memory_server Inr))
            (stream_of [Inr (first_frame [] (Some 0))]) ([], empty_memory))))
      = [Call_CreateObject (writeRequest example_getObjectACL \<lparr>cd_Content = [], cd_Crc32C = Some 0\<rparr>
                               example_spec example_resource)]"
  by (simp add: example_upload writeRequest_Crc32c ParseUint_Sprint Let_def)

text \<open>
  C1 (amended): for every upload stream whose first received message has no data part or
  no \<^verbatim>\<open>WriteObjectSpec\<close>, \<open>WriteObject\<close> returns the sentinel
  \<open>errUnsupportedWriteOperation\<close>, and the backend is not called: its state is the one
  before the call, and a spy around it has logged nothing.
\<close>

theorem WriteObject_rejects_missing_data_or_spec:
  assumes "incoming ws = Inr m # rest"
    and "Data m = None \<or> GetWriteObjectSpec (Some m) = None"
  shows "WriteObject g s ws st = (Err errUnsupportedWriteOperation, ws\<lparr>incoming := rest\<rparr>, st)
       \<and> snd (snd (WriteObject g (with_spy s) ws (log, st))) = (log, st)"
proof -
  have r: "Recv ws = ((Some m, None), ws\<lparr>incoming := rest\<rparr>)"
    using assms(1) by (rule Recv_message)
  have c: "GetChecksummedData (fst (fst (Recv ws))) = None
           \<or> GetWriteObjectSpec (fst (fst (Recv ws))) = None"
    using assms(2) by (simp add: r GetChecksummedData_def)
  show ?thesis
    using WriteObject_rejects [OF c, of g s st]
          WriteObject_rejects [OF c, of g "with_spy s" "(log, st)"]
    by (simp add: r)
qed

theorem WriteObject_rejects_missing_data_or_spec_witness:
  "WriteObject example_getObjectACL (with_spy (memory_server Inr))
       (stream_of [Inr (data_frame hello)]) ([], empty_memory)
     = (Err errUnsupportedWriteOperation, stream_of [], ([], empty_memory))
   \<and> WriteObject example_getObjectACL (with_spy (memory_server Inr))
       (stream_of [Inr spec_frame]) ([], empty_memory)
     = (Err errUnsupportedWriteOperation, stream_of [], ([], empty_memory))"
  using WriteObject_rejects_missing_data_or_spec
          [of "stream_of [Inr (data_frame hello)]" "data_frame hello" "[]"
              example_getObjectACL "with_spy (memory_server Inr)" "([], empty_memory)"]
        WriteObject_rejects_missing_data_or_spec
          [of "stream_of [Inr spec_frame]" spec_frame "[]"
              example_getObjectACL "with_spy (memory_server Inr)" "([], empty_memory)"]
  by (simp add: stream_of_def data_frame_def spec_frame_def GetWriteObjectSpec_def)

subsection \<open>C2: an upload without a checksum\<close>

text \<open>
  C2 says that an upload whose first message carries data and a spec but no checksum
  still succeeds. The request side does what the claim says: line 103 leaves the
  \<open>Crc32c\<close> field of the write request empty. The response side does not: line 112 parses
  the \<open>Crc32c\<close> text of the created object whether or not a checksum was sent. So with
  a backend that returns the \<open>Crc32c\<close> text it was given, the object is created and the
  call then fails with a syntax error of \<^verbatim>\<open>ParseUint\<close> on the empty text, while the same
  upload with a checksum is acknowledged: the absence of the checksum is what makes the
  operation fail.
\<close>

theorem WriteObject_without_checksum_fails:
  assumes "incoming ws = Inr m # rest" and "Data m = Some d"
    and "FirstMessage m = Some (WriteObjectRequest_WriteObjectSpec sp)"
    and "Resource sp = Some r"
    and "fst (CreateObject (backend s) (writeRequest g d sp r) st) = Inr obj"
    and "Crc32c obj = Crc32c (writeRequest g d sp r)"
    and "send_error ws = None"
  shows "fst (WriteObject g s ws st)
           = (case cd_Crc32C d of
                None \<Rightarrow> Err (NumError ''ParseUint'' [] ErrSyntax)
              | Some X \<Rightarrow> Ok ())
       \<and> snd (snd (WriteObject g s ws st))
           = snd (CreateObject (backend s) (writeRequest g d sp r) st)"
proof (cases "cd_Crc32C d")
  case None
  then have "ParseUint (Crc32c obj) 32 = Inl (NumError ''ParseUint'' [] ErrSyntax)"
    using assms(6) by (simp add: writeRequest_Crc32c ParseUint_empty)
  then show ?thesis
    using WriteObject_accepts [OF assms(1-4), of g s st] assms(5) None
    by (simp split: prod.splits)
next
  case (Some X)
  then have "ParseUint (Crc32c obj) 32 = Inr (unat X)"
    using assms(6) by (simp add: writeRequest_Crc32c ParseUint_Sprint)
  then show ?thesis
    using WriteObject_acknowledged [OF assms(1-5), of "unat X"] assms(7) Some
    by simp
qed

theorem WriteObject_without_checksum_fails_witness:
  "fst (WriteObject example_getObjectACL (memory_server Inr)
          (stream_of [Inr (first_frame hello None)]) empty_memory)
     = Err (NumError ''ParseUint'' [] ErrSyntax)
   \<and> objects (snd (snd (WriteObject example_getObjectACL (memory_server Inr)
          (stream_of [Inr (first_frame hello None)]) empty_memory)))
     = [writeRequest example_getObjectACL \<lparr>cd_Content = hello, cd_Crc32C = None\<rparr>
          example_spec example_resource]
   \<and> fst (WriteObject example_getObjectACL (memory_server Inr)
          (stream_of [Inr (first_frame hello (Some 0))]) empty_memory)
     = Ok ()"
  using WriteObject_without_checksum_fails
          [of "stream_of [Inr (first_frame hello None)]" "first_frame hello None" "[]"
              "\<lparr>cd_Content = hello, cd_Crc32C = None\<rparr>" example_spec example_resource
              "memory_server Inr" example_getObjectACL empty_memory
              "writeRequest example_getObjectACL \<lparr>cd_Content = hello, cd_Crc32C = None\<rparr>
                 example_spec example_resource"]
        WriteObject_without_checksum_fails
          [of "stream_of [Inr (first_frame hello (Some 0))]" "first_frame hello (Some 0)" "[]"
              "\<lparr>cd_Content = hello, cd_Crc32C = Some 0\<rparr>" example_spec example_resource
              "memory_server Inr" example_getObjectACL empty_memory
              "writeRequest example_getObjectACL \<lparr>cd_Content = hello, cd_Crc32C = Some 0\<rparr>
                 example_spec example_resource"]
  by (simp add: stream_of_def first_frame_def example_spec_def memory_server_def
        memory_backend_def empty_memory_def)

subsection \<open>C3: the committed content\<close>

text \<open>
  C3, as stated, has the committed content be the concatenation of the payloads of all
  frames of the stream. \<open>WriteObject\<close> receives one message: on a stream of two frames
  with payloads 1 and 2 the backend is asked to create an object of content 1, and the
  second frame is still unread when the call ends.
\<close>

theorem later_frames_counterexample:
  "frames_payload [first_frame [1] (Some 0), data_frame [2]] = [1, 2]
   \<and> fst (snd (snd (WriteObject example_getObjectACL (with_spy (memory_server Inr))
        (stream_of [Inr (first_frame [1] (Some 0)), Inr (data_frame [2])]) ([], empty_memory))))
     = [Call_CreateObject (writeRequest example_getObjectACL \<lparr>cd_Content = [1], cd_Crc32C = Some 0\<rparr>
                             example_spec example_resource)]
   \<and> Content (writeRequest example_getObjectACL \<lparr>cd_Content = [1], cd_Crc32C = Some 0\<rparr>
                example_spec example_resource) = [1]
   \<and> incoming (fst (snd (WriteObject example_getObjectACL (with_spy (memory_server Inr))
        (stream_of [Inr (first_frame [1] (Some 0)), Inr (data_frame [2])]) ([], empty_memory))))
     = [Inr (data_frame [2])]"
proof -
  have "frames_payload [first_frame [1] (Some 0), data_frame [2]] = [1, 2]"
    by (simp add: frames_payload_def first_frame_def data_frame_def)
  then show ?thesis
    by (simp add: example_upload writeRequest_Crc32c writeRequest_Content ParseUint_Sprint Let_def)
qed

text \<open>
  C3 (amended): for every upload stream whose first message carries data and a spec with
  a resource, the content handed to \<open>CreateObject\<close> is the payload of the first frame,
  byte for byte (the payload of the stream when the stream has one frame); the frames
  after the first are not read.
\<close>

theorem WriteObject_commits_first_frame:
  assumes "incoming ws = Inr m # rest" and "Data m = Some d"
    and "FirstMessage m = Some (WriteObjectRequest_WriteObjectSpec sp)"
    and "Resource sp = Some r"
  shows "fst (snd (snd (WriteObject g (with_spy s) ws (log, st))))
           = log @ [Call_CreateObject (writeRequest g d sp r)]
       \<and> Content (writeRequest g d sp r) = frames_payload [m]
       \<and> incoming (fst (snd (WriteObject g (with_spy s) ws (log, st)))) = rest"
  using WriteObject_spy_log [OF assms, of g s log st]
        WriteObject_reads_one_frame [OF assms(1), of g "with_spy s" "(log, st)"] assms(2)
  by (simp add: writeRequest_Content frames_payload_def)

theorem WriteObject_commits_first_frame_witness:
  "fst (snd (snd (WriteObject example_getObjectACL (with_spy (memory_server Inr))
        (stream_of [Inr (first_frame hello (Some 0)), Inr (data_frame [2])]) ([], empty_memory))))
     = [Call_CreateObject (writeRequest example_getObjectACL \<lparr>cd_Content = hello, cd_Crc32C = Some 0\<rparr>
                             example_spec example_resource)]
   \<and> Content (writeRequest example_getObjectACL \<lparr>cd_Content = hello, cd_Crc32C = Some 0\<rparr>
                example_spec example_resource) = hello
   \<and> incoming (fst (snd (WriteObject example_getObjectACL (with_spy (memory_server Inr))
        (stream_of [Inr (first_frame hello (Some 0)), Inr (data_frame [2])]) ([], empty_memory))))
     = [Inr (data_frame [2])]"
  using WriteObject_commits_first_frame
          [of "stream_of [Inr (first_frame hello (Some 0)), Inr (data_frame [2])]"
              "first_frame hello (Some 0)" "[Inr (data_frame [2])]"
              "\<lparr>cd_Content = hello, cd_Crc32C = Some 0\<rparr>" example_spec example_resource
              example_getObjectACL "memory_server Inr" "[]" empty_memory]
  by (simp add: stream_of_def first_frame_def example_spec_def frames_payload_def)

subsection \<open>C4: the decimal text of a checksum parses back\<close>

text \<open>
  C4: for every unsigned 32-bit integer \<open>X\<close>, the decimal text that \<^verbatim>\<open>fmt.Sprint\<close> writes
  into the write request parses back, with \<^verbatim>\<open>strconv.ParseUint(s, 10, 32)\<close> and the
  conversion to \<^verbatim>\<open>uint32\<close> of the response path, to \<open>X\<close> itself; 0 and 4294967295 are
  the instances of the witness.
\<close>

theorem checksum_decimal_round_trip:
  "Crc32c (writeRequest g (d\<lparr>cd_Crc32C := Some X\<rparr>) sp r) = Sprint X
   \<and> ParseUint (Sprint X) 32 = Inr (unat X)
   \<and> (of_nat (unat X) :: uint32) = X"
  by (simp add: ParseUint_Sprint writeRequest_Crc32c)

theorem checksum_decimal_round_trip_witness:
  "ParseUint (Sprint 0) 32 = Inr 0
   \<and> ParseUint (Sprint 4294967295) 32 = Inr 4294967295
   \<and> Sprint 0 = ''0'' \<and> Sprint 4294967295 = ''4294967295''"
proof -
  have "Sprint 0 = ''0''"
    by (simp add: Sprint_def formatBits.simps char_of_def bit_0)
  moreover have "Sprint 4294967295 = ''4294967295''"
    by (simp add: Sprint_def formatBits.simps char_of_def bit_0)
  ultimately show ?thesis
    using checksum_decimal_round_trip [where X = 0]
          checksum_decimal_round_trip [where X = 4294967295]
    by simp
qed

subsection \<open>C5: content hash and entity tag of the write request\<close>

text \<open>
  C5: for every upload whose first message carries data and a spec, the write request
  handed to \<open>CreateObject\<close> has as \<open>Md5Hash\<close> the base64 text of the MD5 digest of the
  content, and as \<open>Etag\<close> that same text between double quotes. (A request is handed
  over when the spec names a resource; without one the server stops before the backend.)
\<close>

theorem writeRequest_hash_and_tag:
  assumes "incoming ws = Inr m # rest" and "Data m = Some d"
    and "FirstMessage m = Some (WriteObjectRequest_WriteObjectSpec sp)"
  shows "fst (snd (snd (WriteObject g (with_spy s) ws (log, st))))
           = (case Resource sp of
                None \<Rightarrow> log
              | Some r \<Rightarrow> log @ [Call_CreateObject (writeRequest g d sp r)])
       \<and> (\<forall>r. Md5Hash (writeRequest g d sp r) = EncodedHash (MD5Hash (cd_Content d))
              \<and> Etag (writeRequest g d sp r)
                  = CHR 0x22 # Md5Hash (writeRequest g d sp r) @ [CHR 0x22])"
proof -
  have "fst (snd (snd (WriteObject g (with_spy s) ws (log, st))))
           = (case Resource sp of
                None \<Rightarrow> log
              | Some r \<Rightarrow> log @ [Call_CreateObject (writeRequest g d sp r)])"
  proof (cases "Resource sp")
    case None
    then show ?thesis
      using WriteObject_nil_resource [OF assms None, of g "with_spy s" "(log, st)"] by simp
  next
    case (Some r)
    then show ?thesis
      using WriteObject_spy_log [OF assms Some, of g s log st] by simp
  qed
  then show ?thesis
    by (simp add: writeRequest_Md5Hash writeRequest_Etag EncodedMd5Hash_def Quote_EncodedHash)
qed

theorem writeRequest_hash_and_tag_witness:
  "fst (snd (snd (WriteObject example_getObjectACL (with_spy (memory_server Inr))
        (stream_of [Inr (first_frame hello None)]) ([], empty_memory))))
     = [Call_CreateObject (writeRequest example_getObjectACL \<lparr>cd_Content = hello, cd_Crc32C = None\<rparr>
                             example_spec example_resource)]
   \<and> Md5Hash (writeRequest example_getObjectACL \<lparr>cd_Content = hello, cd_Crc32C = None\<rparr>
                example_spec example_resource) = EncodedHash (MD5Hash hello)
   \<and> Etag (writeRequest example_getObjectACL \<lparr>cd_Content = hello, cd_Crc32C = None\<rparr>
                example_spec example_resource)
       = CHR 0x22 # EncodedHash (MD5Hash hello) @ [CHR 0x22]
   \<and> EncodedHash (MD5Hash hello) = ''XUFAKrxLKna5cZ2REBfFkg==''"
  using writeRequest_hash_and_tag
          [of "stream_of [Inr (first_frame hello None)]" "first_frame hello None" "[]"
              "\<lparr>cd_Content = hello, cd_Crc32C = None\<rparr>" example_spec
              example_getObjectACL "memory_server Inr" "[]" empty_memory]
        EncodedMd5Hash_hello
  by (simp add: stream_of_def first_frame_def example_spec_def EncodedMd5Hash_def)

subsection \<open>C6: the size of the response\<close>

text \<open>
  C6: for every object the backend returns from \<open>CreateObject\<close>, the size of the object
  in the response is the number of bytes of the committed content, whatever the stored
  size of that object says. (The response exists when the checksum text of the object
  parses; the witness has a backend that stores the size 999 for three bytes.)
\<close>

theorem response_size_is_content_length:
  assumes "incoming ws = Inr m # rest" and "Data m = Some d"
    and "FirstMessage m = Some (WriteObjectRequest_WriteObjectSpec sp)"
    and "Resource sp = Some r"
    and "fst (CreateObject (backend s) (writeRequest g d sp r) st) = Inr obj"
    and "ParseUint (Crc32c obj) 32 = Inr n"
  shows "\<exists>resource.
           sent (fst (snd (WriteObject g s ws st)))
             = sent ws @ [\<lparr>WriteStatus = Some (WriteObjectResponse_Resource resource)\<rparr>]
           \<and> pb_Size resource = int (length (Content obj))"
proof -
  obtain resource where
    w: "writeResponse (fromBackendObject obj) (of_nat n)
          = \<lparr>WriteStatus = Some (WriteObjectResponse_Resource resource)\<rparr>"
    and sz: "pb_Size resource = int (length (fs_Content (fromBackendObject obj)))"
    using writeResponse_Size by blast
  have "sent (fst (snd (WriteObject g s ws st)))
          = sent ws @ [\<lparr>WriteStatus = Some (WriteObjectResponse_Resource resource)\<rparr>]"
    using WriteObject_acknowledged [OF assms, of ] by (simp add: w)
  then show ?thesis
    using sz by (auto simp: fromBackendObject_Content)
qed

theorem response_size_is_content_length_witness:
  "map Size (objects (snd (snd (WriteObject example_getObjectACL
                (memory_server (\<lambda>obj. Inr (obj\<lparr>Size := 999, Crc32c := ''7''\<rparr>)))
                (stream_of [Inr (first_frame [1, 2, 3] None)]) empty_memory)))) = [999]
   \<and> (\<exists>resource.
        sent (fst (snd (WriteObject example_getObjectACL
                (memory_server (\<lambda>obj. Inr (obj\<lparr>Size := 999, Crc32c := ''7''\<rparr>)))
                (stream_of [Inr (first_frame [1, 2, 3] None)]) empty_memory)))
          = [\<lparr>WriteStatus = Some (WriteObjectResponse_Resource resource)\<rparr>]
        \<and> pb_Size resource = 3)"
proof -
  let ?g = example_getObjectACL
  let ?srv = "memory_server (\<lambda>obj. Inr (obj\<lparr>Size := 999, Crc32c := ''7''\<rparr>))"
  let ?d = "\<lparr>cd_Content = [1, 2, 3], cd_Crc32C = None\<rparr>"
  let ?ws = "stream_of [Inr (first_frame [1, 2, 3] None)]"
  let ?req = "writeRequest ?g ?d example_spec example_resource"
  let ?obj = "?req\<lparr>Size := 999, Crc32c := ''7''\<rparr>"
  have a1: "incoming ?ws = Inr (first_frame [1, 2, 3] None) # []"
    by (simp add: stream_of_def)
  have a2: "Data (first_frame [1, 2, 3] None) = Some ?d"
    by (simp add: first_frame_def)
  have a3: "FirstMessage (first_frame [1, 2, 3] None) = Some (WriteObjectRequest_WriteObjectSpec example_spec)"
    by (simp add: first_frame_def)
  have a4: "Resource example_spec = Some example_resource"
    by (simp add: example_spec_def)
  have a5: "fst (CreateObject (backend ?srv) ?req empty_memory) = Inr ?obj"
    by (simp add: memory_server_def memory_backend_def)
  have a6: "ParseUint (Crc32c ?obj) 32 = Inr 7"
    by (simp add: ParseUint_7)
  have st: "snd (snd (WriteObject ?g ?srv ?ws empty_memory)) = empty_memory\<lparr>objects := [?obj]\<rparr>"
    using WriteObject_acknowledged [OF a1 a2 a3 a4 a5 a6]
    by (simp add: memory_server_def memory_backend_def empty_memory_def)
  have "map Size (objects (snd (snd (WriteObject ?g ?srv ?ws empty_memory)))) = [999]"
    by (simp add: st)
  moreover have "\<exists>resource. sent (fst (snd (WriteObject ?g ?srv ?ws empty_memory)))
          = [\<lparr>WriteStatus = Some (WriteObjectResponse_Resource resource)\<rparr>]
        \<and> pb_Size resource = 3"
    using response_size_is_content_length [OF a1 a2 a3 a4 a5 a6]
    by (simp add: stream_of_def writeRequest_Content)
  ultimately show ?thesis by blast
qed

subsection \<open>C7: errors of the backend\<close>

text \<open>
  C7: an error that the backend returns from \<open>ListBuckets\<close>, \<open>ListObjects\<close> or
  \<open>CreateObject\<close> is the error that the RPC returns, the same value; and the backend is
  called once, so nothing is retried.
\<close>

theorem backend_errors_propagate:
  "(fst (Storage_ListBuckets (backend s) st) = Inl e \<longrightarrow> fst (ListBuckets s st) = Err e)
   \<and> (fst (Storage_ListObjects (backend s) (Parent req) (Prefix req) (Versions req) st) = Inl e
        \<longrightarrow> fst (ListObjects s req st) = Err e)
   \<and> (incoming ws = Inr m # rest \<and> Data m = Some d
        \<and> FirstMessage m = Some (WriteObjectRequest_WriteObjectSpec sp) \<and> Resource sp = Some r
        \<and> fst (CreateObject (backend s) (writeRequest g d sp r) st) = Inl e
        \<longrightarrow> fst (WriteObject g s ws st) = Err e)
   \<and> fst (snd (ListBuckets (with_spy s) (log, st))) = log @ [Call_ListBuckets]
   \<and> fst (snd (ListObjects (with_spy s) req (log, st)))
       = log @ [Call_ListObjects (Parent req) (Prefix req) (Versions req)]
   \<and> (incoming ws = Inr m # rest \<and> Data m = Some d
        \<and> FirstMessage m = Some (WriteObjectRequest_WriteObjectSpec sp) \<and> Resource sp = Some r
        \<longrightarrow> fst (snd (snd (WriteObject g (with_spy s) ws (log, st))))
            = log @ [Call_CreateObject (writeRequest g d sp r)])"
proof -
  have b: "fst (ListBuckets s st) = Err e" if "fst (Storage_ListBuckets (backend s) st) = Inl e"
    using that by (auto simp: ListBuckets_def split: prod.splits)
  have o: "fst (ListObjects s req st) = Err e"
    if "fst (Storage_ListObjects (backend s) (Parent req) (Prefix req) (Versions req) st) = Inl e"
    using that by (auto simp: ListObjects_def split: prod.splits)
  have sb: "fst (snd (ListBuckets (with_spy s) (log, st))) = log @ [Call_ListBuckets]"
    by (simp add: ListBuckets_def with_spy_def spy_def Let_def split: prod.splits sum.splits)
  have so: "fst (snd (ListObjects (with_spy s) req (log, st)))
       = log @ [Call_ListObjects (Parent req) (Prefix req) (Versions req)]"
    by (simp add: ListObjects_def with_spy_def spy_def Let_def split: prod.splits sum.splits)
  show ?thesis
    using b o sb so WriteObject_backend_error [of ws m rest d sp r s g st e]
      WriteObject_spy_log [of ws m rest d sp r g s log st]
    by blast
qed

theorem backend_errors_propagate_witness:
  "fst (ListBuckets (failing_server (ExternalError ''storage unavailable'')) ())
     = Err (ExternalError ''storage unavailable'')
   \<and> fst (ListObjects (failing_server (ExternalError ''storage unavailable''))
            \<lparr>Parent = ''b'', Prefix = ''img/'', Versions = False\<rparr> ())
     = Err (ExternalError ''storage unavailable'')
   \<and> fst (WriteObject example_getObjectACL (failing_server (ExternalError ''storage unavailable''))
            (stream_of [Inr (first_frame hello (Some 0))]) ())
     = Err (ExternalError ''storage unavailable'')"
  using backend_errors_propagate
          [of "failing_server (ExternalError ''storage unavailable'')" "()"
              "ExternalError ''storage unavailable''"
              "\<lparr>Parent = ''b'', Prefix = ''img/'', Versions = False\<rparr>"
              "stream_of [Inr (first_frame hello (Some 0))]" "first_frame hello (Some 0)" "[]"
              "\<lparr>cd_Content = hello, cd_Crc32C = Some 0\<rparr>" example_spec example_resource
              example_getObjectACL "[]"]
  by (simp add: failing_server_def failing_backend_def stream_of_def first_frame_def
        example_spec_def)

subsection \<open>C8: object listings\<close>

text \<open>
  C8: \<open>ListObjects\<close> calls the backend's enumeration once, with the parent, the prefix
  and the versions flag of the request as they are; when the backend returns a list, the
  response holds one entry per element of it, in the same order, each with the name of
  its element and every other field at its zero value.
\<close>

theorem ListObjects_delegates:
  assumes "Storage_ListObjects (backend s) (Parent req) (Prefix req) (Versions req) st
             = (Inr objs, st')"
  shows "(\<exists>r. ListObjects s req st = (Ok r, st')
            \<and> Objects r = Some (map (\<lambda>object. Some (pb_Object_named (Name object))) (elems objs))
            \<and> len (Objects r) = len objs)
       \<and> fst (snd (ListObjects (with_spy s) req (log, st)))
           = log @ [Call_ListObjects (Parent req) (Prefix req) (Versions req)]"
proof -
  have "fst (snd (ListObjects (with_spy s) req (log, st)))
           = log @ [Call_ListObjects (Parent req) (Prefix req) (Versions req)]"
    by (simp add: ListObjects_def with_spy_def spy_def Let_def split: prod.splits sum.splits)
  moreover have "ListObjects s req st
      = (Ok \<lparr>Objects = Some (map (\<lambda>object. Some (pb_Object_named (Name object))) (elems objs))\<rparr>, st')"
    using assms by (simp add: ListObjects_def len_elems elems_Some range_assign_make)
  ultimately show ?thesis
    by (simp add: len_elems elems_Some)
qed

theorem ListObjects_delegates_witness:
  "\<exists>r. ListObjects (memory_server Inr) \<lparr>Parent = ''b'', Prefix = ''img/'', Versions = False\<rparr>
          example_memory = (Ok r, example_memory)
      \<and> Objects r = Some [Some (pb_Object_named ''img/a.png''), Some (pb_Object_named ''img/b.png'')]"
proof -
  have "Storage_ListObjects (backend (memory_server Inr)) ''b'' ''img/'' False example_memory
          = (Inr (Some [object_named ''b'' ''img/a.png'' [1], object_named ''b'' ''img/b.png'' [4]]),
             example_memory)"
    by (simp add: memory_server_def memory_backend_def example_memory_def object_named_def)
  then show ?thesis
    using ListObjects_delegates
            [of "memory_server Inr" "\<lparr>Parent = ''b'', Prefix = ''img/'', Versions = False\<rparr>"
                example_memory
                "Some [object_named ''b'' ''img/a.png'' [1], object_named ''b'' ''img/b.png'' [4]]"
                example_memory "[]"]
    by (auto simp: elems_Some object_named_def)
qed

subsection \<open>C9: an empty bucket listing is an empty sequence\<close>

text \<open>
  C9: when the backend's bucket enumeration returns no bucket (a nil or an empty slice)
  and no error, \<open>ListBuckets\<close> returns a response whose bucket sequence is not nil and has
  length zero.
\<close>

theorem ListBuckets_empty:
  assumes "Storage_ListBuckets (backend s) st = (Inr bs, st')" and "len bs = 0"
  shows "\<exists>r. ListBuckets s st = (Ok r, st') \<and> Buckets r = Some [] \<and> Buckets r \<noteq> None"
  using assms by (simp add: ListBuckets_def make_slice_def len_elems elems_def)

theorem ListBuckets_empty_witness:
  "\<exists>r. ListBuckets (memory_server Inr) empty_memory = (Ok r, empty_memory) \<and> Buckets r = Some []
        \<and> Buckets r \<noteq> None"
  using ListBuckets_empty [of "memory_server Inr" empty_memory "Some []" empty_memory]
  by (simp add: memory_server_def memory_backend_def empty_memory_def len_def)

subsection \<open>C10: a failed first receive\<close>

text \<open>
  C10: if the first \<^verbatim>\<open>Recv\<close> on the upload stream fails (an error of the connection, or
  the end of the stream before any message), \<open>WriteObject\<close> returns the sentinel
  \<open>errUnsupportedWriteOperation\<close> whatever the error of \<^verbatim>\<open>Recv\<close> was, and leaves the
  backend alone.
\<close>

theorem WriteObject_receive_failure:
  assumes "incoming ws = [] \<or> incoming ws = Inl e # rest"
  shows "fst (Recv ws) = (None, Some (if incoming ws = [] then EOF else e))
       \<and> fst (WriteObject g s ws st) = Err errUnsupportedWriteOperation
       \<and> snd (snd (WriteObject g s ws st)) = st"
proof -
  have "fst (Recv ws) = (None, Some (if incoming ws = [] then EOF else e))"
    using assms by (auto simp: Recv_def)
  moreover have "WriteObject g s ws st = (Err errUnsupportedWriteOperation, snd (Recv ws), st)"
    using Recv_failure [OF assms] by (intro WriteObject_rejects) simp
  ultimately show ?thesis by simp
qed

theorem WriteObject_receive_failure_witness:
  "fst (WriteObject example_getObjectACL (memory_server Inr)
          (stream_of [Inl (ExternalError ''connection reset'')]) empty_memory)
     = Err errUnsupportedWriteOperation
   \<and> fst (WriteObject example_getObjectACL (memory_server Inr) (stream_of []) empty_memory)
     = Err errUnsupportedWriteOperation"
  using WriteObject_receive_failure
          [of "stream_of [Inl (ExternalError ''connection reset'')]" "ExternalError ''connection reset''" "[]"
              example_getObjectACL "memory_server Inr" empty_memory]
        WriteObject_receive_failure
          [of "stream_of []" EOF "[]" example_getObjectACL "memory_server Inr" empty_memory]
  by (simp add: stream_of_def)

end
